theory Spec2Isabelle
  imports Main
begin

section \<open>Python values\<close>

text \<open>
  The service passes a few dynamically typed values around: the keyword arguments of
  \<^verbatim>\<open>create_access_token\<close>, the dictionary \<^verbatim>\<open>user.dict(exclude_unset=True)\<close> and the
  claims of a token. A \<^verbatim>\<open>timedelta\<close> and a \<^verbatim>\<open>datetime\<close> are whole seconds
  (a \<^verbatim>\<open>datetime\<close> counted from the epoch). A \<^verbatim>\<open>str\<close> is a \<open>string\<close>, one
  \<open>char\<close> for each character.
\<close>

datatype pyval = VNone | VBool bool | VInt int | VStr string | VTimedelta int

type_synonym pydict = "(string \<times> pyval) list"

text \<open>Truth value testing, as \<^verbatim>\<open>if x:\<close> and \<^verbatim>\<open>not x\<close> do it.\<close>

fun truthy :: "pyval \<Rightarrow> bool" where
  "truthy VNone = False"
| "truthy (VBool b) = b"
| "truthy (VInt i) = (i \<noteq> 0)"
| "truthy (VStr s) = (s \<noteq> [])"
| "truthy (VTimedelta d) = (d \<noteq> 0)"

definition digit :: "nat \<Rightarrow> char" where
  "digit n = ''0123456789'' ! n"

function digits :: "nat \<Rightarrow> string" where
  "digits n = (if n < 10 then [digit n] else digits (n div 10) @ [digit (n mod 10)])"
  by pat_completeness auto
termination
  by (relation "measure (\<lambda>n. n)") auto

declare digits.simps [simp del]

definition str_int :: "int \<Rightarrow> string" where
  "str_int i = (if i < 0 then CHR ''-'' # digits (nat (- i)) else digits (nat i))"

definition two_digits :: "int \<Rightarrow> string" where
  "two_digits i = (if i < 10 then CHR ''0'' # str_int i else str_int i)"

text \<open>\<^verbatim>\<open>str(x)\<close>; a \<^verbatim>\<open>timedelta\<close> prints as \<^verbatim>\<open>[D day[s], ]H:MM:SS\<close>.\<close>

fun py_str :: "pyval \<Rightarrow> string" where
  "py_str VNone = ''None''"
| "py_str (VBool b) = (if b then ''True'' else ''False'')"
| "py_str (VInt i) = str_int i"
| "py_str (VStr s) = s"
| "py_str (VTimedelta d) =
     (let days = d div 86400; r = d mod 86400;
          hms = str_int (r div 3600) @ '':'' @ two_digits (r mod 3600 div 60) @ '':''
                @ two_digits (r mod 60)
      in if days = 0 then hms
         else str_int days @ (if \<bar>days\<bar> \<noteq> 1 then '' days, '' else '' day, '') @ hms)"

definition pybool :: "bool option \<Rightarrow> pyval" where
  "pybool b = (case b of None \<Rightarrow> VNone | Some v \<Rightarrow> VBool v)"

section \<open>Errors\<close>

text \<open>
  Every exception the handlers can end with. \<open>HTTPException\<close> carries the status code,
  the detail and the headers. The others are not caught anywhere in the service:
  \<open>RequestValidationError\<close> is answered 422 by the framework, every other one 500.
\<close>

datatype error =
    HTTPException nat string "(string \<times> string) list"
  | RequestValidationError
  | ResponseValidationError
  | TypeError string
  | IntegrityError
  | UnknownHashError

fun status_code :: "error \<Rightarrow> nat" where
  "status_code (HTTPException s _ _) = s"
| "status_code RequestValidationError = 422"
| "status_code _ = 500"

section \<open>The libraries and the environment\<close>

text \<open>
  The third-party code the service calls is a parameter of the model:
  \<^item> \<open>pwd_hash\<close>, \<open>pwd_verify\<close>: \<^verbatim>\<open>pwd_context.hash\<close> and \<^verbatim>\<open>pwd_context.verify\<close> of
    passlib. Hashing draws a salt, the first argument; verifying raises on a string that
    is no hash.
  \<^item> \<open>jwt_encode claims key\<close>, \<open>jwt_decode now token key\<close>: \<^verbatim>\<open>jwt.encode\<close> and
    \<^verbatim>\<open>jwt.decode\<close> of jose; \<open>None\<close> stands for every \<^verbatim>\<open>JWTError\<close> (bad signature,
    malformed token, expired).
  \<^item> \<open>email_validate\<close>: pydantic's \<^verbatim>\<open>EmailStr\<close>, \<open>None\<close> for a malformed address and
    the normalised address otherwise.
  \<^item> \<open>environ_SECRET_KEY\<close>: \<^verbatim>\<open>os.environ.get("SECRET_KEY")\<close>.
  \<^item> \<open>id_eq_text\<close>: the store's comparison of the integer column \<^verbatim>\<open>id\<close> with a text
    parameter, which \<^verbatim>\<open>User.id == user_id\<close> comes to for the string in a token.
\<close>

record externals =
  pwd_hash :: "nat \<Rightarrow> string \<Rightarrow> string"
  pwd_verify :: "string \<Rightarrow> string \<Rightarrow> error + bool"
  jwt_encode :: "pydict \<Rightarrow> string \<Rightarrow> string"
  jwt_decode :: "int \<Rightarrow> string \<Rightarrow> string \<Rightarrow> pydict option"
  email_validate :: "string \<Rightarrow> string option"
  environ_SECRET_KEY :: "string option"
  id_eq_text :: "int \<Rightarrow> string \<Rightarrow> bool"

section \<open>app/models/user.py\<close>

text \<open>
  A row of the table \<^verbatim>\<open>users\<close>. The columns declared \<^verbatim>\<open>nullable=False\<close> and the
  primary key hold a value; every other column may hold \<^verbatim>\<open>NULL\<close>. \<open>created_at\<close> has a
  server default, so it is set in every row.
\<close>

record user =
  user_id :: int
  email :: string
  username :: string
  first_name :: "string option"
  last_name :: "string option"
  phone_number :: "string option"
  hashed_password :: string
  is_active :: "bool option"
  is_barber :: "bool option"
  created_at :: int
  updated_at :: "int option"

text \<open>The table, in rowid order.\<close>

type_synonym db = "user list"

section \<open>app/schemas\<close>

record UserCreate =
  create_email :: string
  create_username :: string
  create_first_name :: "string option"
  create_last_name :: "string option"
  create_phone_number :: "string option"
  create_is_barber :: bool
  create_password :: string

text \<open>
  A field of \<^verbatim>\<open>UserUpdate\<close> is absent from the request, present as \<^verbatim>\<open>null\<close>, or
  present with a value; \<^verbatim>\<open>dict(exclude_unset=True)\<close> tells the first from the second.
\<close>

datatype 'a field = Unset | Null | Val 'a

record UserUpdate =
  update_email :: "string field"
  update_username :: "string field"
  update_first_name :: "string field"
  update_last_name :: "string field"
  update_phone_number :: "string field"
  update_password :: "string field"
  update_is_active :: "bool field"
  update_is_barber :: "bool field"

text \<open>The response schema \<^verbatim>\<open>User\<close>: it has no password and no hash.\<close>

record UserSchema =
  resp_email :: string
  resp_username :: string
  resp_first_name :: "string option"
  resp_last_name :: "string option"
  resp_phone_number :: "string option"
  resp_is_barber :: bool
  resp_id :: int
  resp_is_active :: bool
  resp_created_at :: int
  resp_updated_at :: "int option"

record Token =
  access_token :: string
  token_type :: string

record LoginRequest =
  login_email :: string
  login_password :: string

record OAuth2PasswordRequestForm =
  form_username :: string
  form_password :: string

section \<open>app/utils/auth.py\<close>

definition SECRET_KEY :: "externals \<Rightarrow> string" where
  "SECRET_KEY E = (case environ_SECRET_KEY E of Some k \<Rightarrow> k | None \<Rightarrow> ''secret_key_123'')"

definition ACCESS_TOKEN_EXPIRE_MINUTES :: int where
  "ACCESS_TOKEN_EXPIRE_MINUTES = 30"

definition timedelta_minutes :: "int \<Rightarrow> pyval" where
  "timedelta_minutes m = VTimedelta (m * 60)"

definition verify_password :: "externals \<Rightarrow> string \<Rightarrow> string \<Rightarrow> error + bool" where
  "verify_password E plain_password hashed = pwd_verify E plain_password hashed"

definition get_password_hash :: "externals \<Rightarrow> nat \<Rightarrow> string \<Rightarrow> string" where
  "get_password_hash E salt password = pwd_hash E salt password"

text \<open>
  \<^verbatim>\<open>create_access_token(subject, expires_delta=None)\<close>, at the time \<open>now\<close>. Adding
  anything but a \<^verbatim>\<open>timedelta\<close> to a \<^verbatim>\<open>datetime\<close> raises.
\<close>

definition create_access_token :: "externals \<Rightarrow> int \<Rightarrow> pyval \<Rightarrow> pyval \<Rightarrow> error + string" where
  "create_access_token E now subject expires_delta =
     (let delta = (if truthy expires_delta then expires_delta
                   else timedelta_minutes ACCESS_TOKEN_EXPIRE_MINUTES)
      in case delta of
           VTimedelta d \<Rightarrow>
             Inr (jwt_encode E [(''exp'', VInt (now + d)), (''sub'', VStr (py_str subject))]
                    (SECRET_KEY E))
         | _ \<Rightarrow> Inl (TypeError ''unsupported operand type(s) for +''))"

text \<open>
  A call that passes every argument by keyword. The parameters of the callee are its
  names, each with its default if it has one. A keyword that names no parameter raises
  \<^verbatim>\<open>TypeError\<close>, and so does a parameter left without a value.
\<close>

definition bind_kwargs ::
  "(string \<times> pyval option) list \<Rightarrow> pydict \<Rightarrow> error + (string \<Rightarrow> pyval)" where
  "bind_kwargs params kwargs =
     (case find (\<lambda>kv. fst kv \<notin> set (map fst params)) kwargs of
        Some kv \<Rightarrow> Inl (TypeError (''got an unexpected keyword argument '' @ fst kv))
      | None \<Rightarrow>
          (case find (\<lambda>p. snd p = None \<and> map_of kwargs (fst p) = None) params of
             Some p \<Rightarrow> Inl (TypeError (''missing 1 required positional argument: '' @ fst p))
           | None \<Rightarrow>
               Inr (\<lambda>name. case map_of kwargs name of
                              Some v \<Rightarrow> v
                            | None \<Rightarrow> (case map_of params name of
                                          Some (Some d) \<Rightarrow> d
                                        | _ \<Rightarrow> VNone))))"

definition create_access_token_params :: "(string \<times> pyval option) list" where
  "create_access_token_params = [(''subject'', None), (''expires_delta'', Some VNone)]"

definition call_create_access_token :: "externals \<Rightarrow> int \<Rightarrow> pydict \<Rightarrow> error + string" where
  "call_create_access_token E now kwargs =
     (case bind_kwargs create_access_token_params kwargs of
        Inl e \<Rightarrow> Inl e
      | Inr arg \<Rightarrow> create_access_token E now (arg ''subject'') (arg ''expires_delta''))"

section \<open>app/crud/user.py\<close>

definition get_user :: "db \<Rightarrow> int \<Rightarrow> user option" where
  "get_user db uid = find (\<lambda>u. user_id u = uid) db"

definition get_user_by_email :: "db \<Rightarrow> string \<Rightarrow> user option" where
  "get_user_by_email db e = find (\<lambda>u. email u = e) db"

definition get_user_by_username :: "db \<Rightarrow> string \<Rightarrow> user option" where
  "get_user_by_username db n = find (\<lambda>u. username u = n) db"

text \<open>
  \<^verbatim>\<open>OFFSET\<close> and \<^verbatim>\<open>LIMIT\<close> of the store (SQLite, app/database.py): a negative offset
  skips nothing and a negative limit is no limit.
\<close>

definition offset_limit :: "int \<Rightarrow> int \<Rightarrow> 'a list \<Rightarrow> 'a list" where
  "offset_limit skip limit xs =
     (let ys = drop (nat skip) xs in if limit < 0 then ys else take (nat limit) ys)"

definition get_users :: "db \<Rightarrow> int \<Rightarrow> int \<Rightarrow> user list" where
  "get_users db skip limit = offset_limit skip limit db"

definition get_barbers :: "db \<Rightarrow> int \<Rightarrow> int \<Rightarrow> user list" where
  "get_barbers db skip limit = offset_limit skip limit (filter (\<lambda>u. is_barber u = Some True) db)"

text \<open>
  The id the store gives a new row (an \<^verbatim>\<open>INTEGER PRIMARY KEY\<close> of SQLite): one more
  than the largest id in the table, 1 in an empty table.
\<close>

definition next_rowid :: "db \<Rightarrow> int" where
  "next_rowid db = foldr (\<lambda>u m. max (user_id u) m) db 0 + 1"

text \<open>
  \<^verbatim>\<open>create_user\<close>: \<^verbatim>\<open>db.add; db.commit; db.refresh\<close> at the time \<open>now\<close>. The insert
  takes the column defaults (\<open>is_active\<close> true, \<open>created_at\<close> now, no \<open>updated_at\<close>)
  and fails on the unique constraints of \<open>email\<close> and \<open>username\<close>. The result is the
  outcome and the table after the call.
\<close>

definition crud_create_user ::
  "externals \<Rightarrow> nat \<Rightarrow> int \<Rightarrow> db \<Rightarrow> UserCreate \<Rightarrow> (error + user) \<times> db" where
  "crud_create_user E salt now db user =
     (let db_user = \<lparr> user_id = next_rowid db,
                      email = create_email user,
                      username = create_username user,
                      first_name = create_first_name user,
                      last_name = create_last_name user,
                      phone_number = create_phone_number user,
                      hashed_password = get_password_hash E salt (create_password user),
                      is_active = Some True,
                      is_barber = Some (create_is_barber user),
                      created_at = now,
                      updated_at = None \<rparr>
      in if list_ex (\<lambda>r. email r = email db_user \<or> username r = username db_user) db
         then (Inl IntegrityError, db)
         else (Inr db_user, db @ [db_user]))"

text \<open>\<^verbatim>\<open>user.dict(exclude_unset=True)\<close>, the fields in the order of the schema.\<close>

fun entry :: "string \<Rightarrow> ('a \<Rightarrow> pyval) \<Rightarrow> 'a field \<Rightarrow> pydict" where
  "entry k f Unset = []"
| "entry k f Null = [(k, VNone)]"
| "entry k f (Val v) = [(k, f v)]"

definition UserUpdate_dict :: "UserUpdate \<Rightarrow> pydict" where
  "UserUpdate_dict user =
     entry ''email'' VStr (update_email user) @
     entry ''username'' VStr (update_username user) @
     entry ''first_name'' VStr (update_first_name user) @
     entry ''last_name'' VStr (update_last_name user) @
     entry ''phone_number'' VStr (update_phone_number user) @
     entry ''password'' VStr (update_password user) @
     entry ''is_active'' VBool (update_is_active user) @
     entry ''is_barber'' VBool (update_is_barber user)"

definition dict_pop :: "pydict \<Rightarrow> string \<Rightarrow> pydict" where
  "dict_pop d k = filter (\<lambda>kv. fst kv \<noteq> k) d"

definition dict_set :: "pydict \<Rightarrow> string \<Rightarrow> pyval \<Rightarrow> pydict" where
  "dict_set d k v =
     (if list_ex (\<lambda>kv. fst kv = k) d then map (\<lambda>kv. if fst kv = k then (k, v) else kv) d
      else d @ [(k, v)])"

text \<open>
  \<^verbatim>\<open>if "password" in update_data and update_data["password"]:
      update_data["hashed_password"] = get_password_hash(update_data.pop("password"))\<close>
  The schema makes the value a \<^verbatim>\<open>str\<close> or \<^verbatim>\<open>None\<close>.
\<close>

definition hash_password_entry :: "externals \<Rightarrow> nat \<Rightarrow> pydict \<Rightarrow> pydict" where
  "hash_password_entry E salt update_data =
     (case map_of update_data ''password'' of
        Some (VStr p) \<Rightarrow>
          if truthy (VStr p)
          then dict_set (dict_pop update_data ''password'') ''hashed_password''
                 (VStr (get_password_hash E salt p))
          else update_data
      | _ \<Rightarrow> update_data)"

text \<open>The attributes of the mapped class that are columns.\<close>

definition user_columns :: "string list" where
  "user_columns = [''id'', ''email'', ''username'', ''first_name'', ''last_name'',
     ''phone_number'', ''hashed_password'', ''is_active'', ''is_barber'', ''created_at'',
     ''updated_at'']"

definition hasattr_user :: "string \<Rightarrow> bool" where
  "hasattr_user field = (field \<in> set user_columns)"

text \<open>
  What a column accepts. \<^verbatim>\<open>None\<close> in a column declared \<^verbatim>\<open>nullable=False\<close> is taken by
  \<^verbatim>\<open>setattr\<close> and refused by the commit that follows, with \<^verbatim>\<open>IntegrityError\<close>; nothing
  is observable in between, so the model raises it at the assignment.
\<close>

fun as_str_notnull :: "pyval \<Rightarrow> error + string" where
  "as_str_notnull (VStr s) = Inr s"
| "as_str_notnull VNone = Inl IntegrityError"
| "as_str_notnull _ = Inl (TypeError ''str expected'')"

fun as_str_null :: "pyval \<Rightarrow> error + string option" where
  "as_str_null (VStr s) = Inr (Some s)"
| "as_str_null VNone = Inr None"
| "as_str_null _ = Inl (TypeError ''str expected'')"

fun as_bool_null :: "pyval \<Rightarrow> error + bool option" where
  "as_bool_null (VBool b) = Inr (Some b)"
| "as_bool_null VNone = Inr None"
| "as_bool_null _ = Inl (TypeError ''bool expected'')"

fun as_int_notnull :: "pyval \<Rightarrow> error + int" where
  "as_int_notnull (VInt i) = Inr i"
| "as_int_notnull VNone = Inl IntegrityError"
| "as_int_notnull _ = Inl (TypeError ''int expected'')"

fun as_int_null :: "pyval \<Rightarrow> error + int option" where
  "as_int_null (VInt i) = Inr (Some i)"
| "as_int_null VNone = Inr None"
| "as_int_null _ = Inl (TypeError ''int expected'')"

definition setattr_user :: "user \<Rightarrow> string \<Rightarrow> pyval \<Rightarrow> error + user" where
  "setattr_user u field v =
     (if field = ''id'' then map_sum id (\<lambda>x. u\<lparr>user_id := x\<rparr>) (as_int_notnull v)
      else if field = ''email'' then map_sum id (\<lambda>x. u\<lparr>email := x\<rparr>) (as_str_notnull v)
      else if field = ''username'' then map_sum id (\<lambda>x. u\<lparr>username := x\<rparr>) (as_str_notnull v)
      else if field = ''first_name'' then map_sum id (\<lambda>x. u\<lparr>first_name := x\<rparr>) (as_str_null v)
      else if field = ''last_name'' then map_sum id (\<lambda>x. u\<lparr>last_name := x\<rparr>) (as_str_null v)
      else if field = ''phone_number'' then
        map_sum id (\<lambda>x. u\<lparr>phone_number := x\<rparr>) (as_str_null v)
      else if field = ''hashed_password'' then
        map_sum id (\<lambda>x. u\<lparr>hashed_password := x\<rparr>) (as_str_notnull v)
      else if field = ''is_active'' then map_sum id (\<lambda>x. u\<lparr>is_active := x\<rparr>) (as_bool_null v)
      else if field = ''is_barber'' then map_sum id (\<lambda>x. u\<lparr>is_barber := x\<rparr>) (as_bool_null v)
      else if field = ''created_at'' then
        map_sum id (\<lambda>x. u\<lparr>created_at := x\<rparr>) (as_int_notnull v)
      else if field = ''updated_at'' then map_sum id (\<lambda>x. u\<lparr>updated_at := x\<rparr>) (as_int_null v)
      else Inr u)"

text \<open>
  \<^verbatim>\<open>for field, value in update_data.items():
      if hasattr(db_user, field):
          setattr(db_user, field, value)\<close>
\<close>

fun setattrs :: "user \<Rightarrow> pydict \<Rightarrow> error + user" where
  "setattrs u [] = Inr u"
| "setattrs u (fv # rest) =
     (if hasattr_user (fst fv)
      then (case setattr_user u (fst fv) (snd fv) of
              Inl e \<Rightarrow> Inl e
            | Inr u' \<Rightarrow> setattrs u' rest)
      else setattrs u rest)"

text \<open>
  \<^verbatim>\<open>db.commit(); db.refresh(db_user)\<close> after the assignments, at the time \<open>now\<close>: the
  row \<open>old\<close> becomes \<open>obj\<close>. The commit fails when another row has the email or the
  username; an object with a changed column is written with \<open>updated_at\<close> set
  (\<^verbatim>\<open>onupdate=func.now()\<close>), an object with none is not written.
\<close>

definition commit_update :: "int \<Rightarrow> db \<Rightarrow> user \<Rightarrow> user \<Rightarrow> (error + user option) \<times> db" where
  "commit_update now db old obj =
     (if list_ex (\<lambda>r. user_id r \<noteq> user_id old \<and>
                       (email r = email obj \<or> username r = username obj)) db
      then (Inl IntegrityError, db)
      else (let row = (if obj = old then obj else obj\<lparr>updated_at := Some now\<rparr>)
            in (Inr (Some row), map (\<lambda>r. if user_id r = user_id old then row else r) db)))"

definition crud_update_user ::
  "externals \<Rightarrow> nat \<Rightarrow> int \<Rightarrow> db \<Rightarrow> int \<Rightarrow> UserUpdate \<Rightarrow> (error + user option) \<times> db" where
  "crud_update_user E salt now db uid user =
     (case get_user db uid of
        None \<Rightarrow> (Inr None, db)
      | Some db_user \<Rightarrow>
          (let update_data = hash_password_entry E salt (UserUpdate_dict user)
           in case setattrs db_user update_data of
                Inl e \<Rightarrow> (Inl e, db)
              | Inr obj \<Rightarrow> commit_update now db db_user obj))"

definition crud_delete_user :: "db \<Rightarrow> int \<Rightarrow> bool \<times> db" where
  "crud_delete_user db uid =
     (case get_user db uid of
        None \<Rightarrow> (False, db)
      | Some db_user \<Rightarrow> (True, filter (\<lambda>r. user_id r \<noteq> user_id db_user) db))"

section \<open>app/dependencies.py\<close>

text \<open>
  \<^verbatim>\<open>oauth2_scheme\<close>: the bearer token of the \<^verbatim>\<open>Authorization\<close> header, \<open>None\<close> when the
  request carries none.
\<close>

definition oauth2_scheme :: "string option \<Rightarrow> error + string" where
  "oauth2_scheme authorization =
     (case authorization of
        None \<Rightarrow> Inl (HTTPException 401 ''Not authenticated'' [(''WWW-Authenticate'', ''Bearer'')])
      | Some token \<Rightarrow> Inr token)"

definition credentials_exception :: error where
  "credentials_exception =
     HTTPException 401 ''Could not validate credentials'' [(''WWW-Authenticate'', ''Bearer'')]"

text \<open>\<^verbatim>\<open>User.id == user_id\<close> for the value of the claim \<^verbatim>\<open>sub\<close>.\<close>

fun id_equals :: "externals \<Rightarrow> int \<Rightarrow> pyval \<Rightarrow> bool" where
  "id_equals E i (VStr s) = id_eq_text E i s"
| "id_equals E i (VInt j) = (i = j)"
| "id_equals E i _ = False"

definition get_current_user :: "externals \<Rightarrow> int \<Rightarrow> db \<Rightarrow> string option \<Rightarrow> error + user" where
  "get_current_user E now db authorization =
     (case oauth2_scheme authorization of
        Inl e \<Rightarrow> Inl e
      | Inr token \<Rightarrow>
          (case jwt_decode E now token (SECRET_KEY E) of
             None \<Rightarrow> Inl credentials_exception
           | Some payload \<Rightarrow>
               (case map_of payload ''sub'' of
                  None \<Rightarrow> Inl credentials_exception
                | Some VNone \<Rightarrow> Inl credentials_exception
                | Some sub \<Rightarrow>
                    (case find (\<lambda>u. id_equals E (user_id u) sub) db of
                       None \<Rightarrow> Inl credentials_exception
                     | Some user \<Rightarrow>
                         if \<not> truthy (pybool (is_active user))
                         then Inl (HTTPException 400 ''Inactive user'' [])
                         else Inr user))))"

definition get_barber_user :: "externals \<Rightarrow> int \<Rightarrow> db \<Rightarrow> string option \<Rightarrow> error + user" where
  "get_barber_user E now db authorization =
     (case get_current_user E now db authorization of
        Inl e \<Rightarrow> Inl e
      | Inr current_user \<Rightarrow>
          if \<not> truthy (pybool (is_barber current_user))
          then Inl (HTTPException 403 ''Not enough permissions'' [])
          else Inr current_user)"

section \<open>app/routers/auth.py\<close>

definition login_for_access_token ::
  "externals \<Rightarrow> int \<Rightarrow> db \<Rightarrow> OAuth2PasswordRequestForm \<Rightarrow> error + Token" where
  "login_for_access_token E now db form_data =
     (case get_user_by_email db (form_username form_data) of
        None \<Rightarrow>
          Inl (HTTPException 401 ''Incorrect email or password''
                 [(''WWW-Authenticate'', ''Bearer'')])
      | Some user \<Rightarrow>
          (case verify_password E (form_password form_data) (hashed_password user) of
             Inl e \<Rightarrow> Inl e
           | Inr ok \<Rightarrow>
               if \<not> ok
               then Inl (HTTPException 401 ''Incorrect email or password''
                           [(''WWW-Authenticate'', ''Bearer'')])
               else (case call_create_access_token E now
                             [(''subject'', VInt (user_id user)),
                              (''is_barber'', pybool (is_barber user)),
                              (''expires_delta'', timedelta_minutes ACCESS_TOKEN_EXPIRE_MINUTES)] of
                       Inl e \<Rightarrow> Inl e
                     | Inr tok \<Rightarrow> Inr \<lparr> access_token = tok, token_type = ''bearer'' \<rparr>)))"

definition login_with_email :: "externals \<Rightarrow> int \<Rightarrow> db \<Rightarrow> LoginRequest \<Rightarrow> error + Token" where
  "login_with_email E now db login_data =
     (case get_user_by_email db (login_email login_data) of
        None \<Rightarrow> Inl (HTTPException 401 ''Incorrect email or password'' [])
      | Some user \<Rightarrow>
          (case verify_password E (login_password login_data) (hashed_password user) of
             Inl e \<Rightarrow> Inl e
           | Inr ok \<Rightarrow>
               if \<not> ok
               then Inl (HTTPException 401 ''Incorrect email or password'' [])
               else (case call_create_access_token E now
                             [(''subject'', VInt (user_id user)),
                              (''is_barber'', pybool (is_barber user)),
                              (''expires_delta'', timedelta_minutes ACCESS_TOKEN_EXPIRE_MINUTES)] of
                       Inl e \<Rightarrow> Inl e
                     | Inr tok \<Rightarrow> Inr \<lparr> access_token = tok, token_type = ''bearer'' \<rparr>)))"

section \<open>app/routers/user.py\<close>

text \<open>
  \<^verbatim>\<open>response_model=UserSchema\<close>: the returned row is validated against the response
  schema, whose \<open>email\<close> is an \<^verbatim>\<open>EmailStr\<close> and whose flags are \<^verbatim>\<open>bool\<close>.
\<close>

definition UserSchema_validate :: "externals \<Rightarrow> user \<Rightarrow> error + UserSchema" where
  "UserSchema_validate E u =
     (case (email_validate E (email u), is_barber u, is_active u) of
        (Some e, Some b, Some a) \<Rightarrow>
          Inr \<lparr> resp_email = e,
                resp_username = username u,
                resp_first_name = first_name u,
                resp_last_name = last_name u,
                resp_phone_number = phone_number u,
                resp_is_barber = b,
                resp_id = user_id u,
                resp_is_active = a,
                resp_created_at = created_at u,
                resp_updated_at = updated_at u \<rparr>
      | _ \<Rightarrow> Inl ResponseValidationError)"

fun UserSchema_validate_list :: "externals \<Rightarrow> user list \<Rightarrow> error + UserSchema list" where
  "UserSchema_validate_list E [] = Inr []"
| "UserSchema_validate_list E (u # us) =
     (case UserSchema_validate E u of
        Inl e \<Rightarrow> Inl e
      | Inr r \<Rightarrow> (case UserSchema_validate_list E us of
                    Inl e \<Rightarrow> Inl e
                  | Inr rs \<Rightarrow> Inr (r # rs)))"

text \<open>
  The body of \<^verbatim>\<open>POST /users\<close> as the client sends it, and its validation as
  \<^verbatim>\<open>UserCreate\<close>: \<open>email\<close> an \<^verbatim>\<open>EmailStr\<close>, \<open>password\<close> with \<^verbatim>\<open>min_length=6\<close>,
  \<open>is_barber\<close> false when absent.
\<close>

record UserCreate_body =
  body_email :: string
  body_username :: string
  body_first_name :: "string option"
  body_last_name :: "string option"
  body_phone_number :: "string option"
  body_is_barber :: "bool option"
  body_password :: string

definition UserCreate_validate :: "externals \<Rightarrow> UserCreate_body \<Rightarrow> error + UserCreate" where
  "UserCreate_validate E body =
     (case email_validate E (body_email body) of
        None \<Rightarrow> Inl RequestValidationError
      | Some e \<Rightarrow>
          if length (body_password body) < 6 then Inl RequestValidationError
          else Inr \<lparr> create_email = e,
                     create_username = body_username body,
                     create_first_name = body_first_name body,
                     create_last_name = body_last_name body,
                     create_phone_number = body_phone_number body,
                     create_is_barber = (case body_is_barber body of None \<Rightarrow> False | Some b \<Rightarrow> b),
                     create_password = body_password body \<rparr>)"

text \<open>
  The handlers. One that writes returns its outcome and the table after the call; an
  exception raised before the commit leaves the table as it was.
\<close>

definition create_user ::
  "externals \<Rightarrow> nat \<Rightarrow> int \<Rightarrow> db \<Rightarrow> UserCreate \<Rightarrow> (error + UserSchema) \<times> db" where
  "create_user E salt now db user =
     (case get_user_by_email db (create_email user) of
        Some _ \<Rightarrow> (Inl (HTTPException 400 ''Email already registered'' []), db)
      | None \<Rightarrow>
          (case get_user_by_username db (create_username user) of
             Some _ \<Rightarrow> (Inl (HTTPException 400 ''Username already taken'' []), db)
           | None \<Rightarrow>
               (case crud_create_user E salt now db user of
                  (Inl e, db') \<Rightarrow> (Inl e, db')
                | (Inr u, db') \<Rightarrow> (UserSchema_validate E u, db'))))"

definition post_users ::
  "externals \<Rightarrow> nat \<Rightarrow> int \<Rightarrow> db \<Rightarrow> UserCreate_body \<Rightarrow> (error + UserSchema) \<times> db" where
  "post_users E salt now db body =
     (case UserCreate_validate E body of
        Inl e \<Rightarrow> (Inl e, db)
      | Inr user \<Rightarrow> create_user E salt now db user)"

definition read_users ::
  "externals \<Rightarrow> int \<Rightarrow> db \<Rightarrow> string option \<Rightarrow> int \<Rightarrow> int \<Rightarrow> error + UserSchema list" where
  "read_users E now db authorization skip limit =
     (case get_current_user E now db authorization of
        Inl e \<Rightarrow> Inl e
      | Inr current_user \<Rightarrow> UserSchema_validate_list E (get_users db skip limit))"

definition read_users_me :: "externals \<Rightarrow> int \<Rightarrow> db \<Rightarrow> string option \<Rightarrow> error + UserSchema" where
  "read_users_me E now db authorization =
     (case get_current_user E now db authorization of
        Inl e \<Rightarrow> Inl e
      | Inr current_user \<Rightarrow> UserSchema_validate E current_user)"

definition read_user ::
  "externals \<Rightarrow> int \<Rightarrow> db \<Rightarrow> string option \<Rightarrow> int \<Rightarrow> error + UserSchema" where
  "read_user E now db authorization uid =
     (case get_current_user E now db authorization of
        Inl e \<Rightarrow> Inl e
      | Inr current_user \<Rightarrow>
          (case get_user db uid of
             None \<Rightarrow> Inl (HTTPException 404 ''User not found'' [])
           | Some db_user \<Rightarrow> UserSchema_validate E db_user))"

definition update_user ::
  "externals \<Rightarrow> nat \<Rightarrow> int \<Rightarrow> db \<Rightarrow> string option \<Rightarrow> int \<Rightarrow> UserUpdate
     \<Rightarrow> (error + UserSchema) \<times> db" where
  "update_user E salt now db authorization uid user =
     (case get_current_user E now db authorization of
        Inl e \<Rightarrow> (Inl e, db)
      | Inr current_user \<Rightarrow>
          (case get_user db uid of
             None \<Rightarrow> (Inl (HTTPException 404 ''User not found'' []), db)
           | Some db_user \<Rightarrow>
               if user_id current_user \<noteq> uid \<and> \<not> truthy (pybool (is_barber current_user))
               then (Inl (HTTPException 403 ''Not enough permissions'' []), db)
               else (case crud_update_user E salt now db uid user of
                       (Inl e, db') \<Rightarrow> (Inl e, db')
                     | (Inr None, db') \<Rightarrow> (Inl ResponseValidationError, db')
                     | (Inr (Some updated_user), db') \<Rightarrow>
                         (UserSchema_validate E updated_user, db'))))"

definition delete_user ::
  "externals \<Rightarrow> int \<Rightarrow> db \<Rightarrow> string option \<Rightarrow> int \<Rightarrow> (error + unit) \<times> db" where
  "delete_user E now db authorization uid =
     (case get_barber_user E now db authorization of
        Inl e \<Rightarrow> (Inl e, db)
      | Inr current_user \<Rightarrow>
          (case crud_delete_user db uid of
             (False, db') \<Rightarrow> (Inl (HTTPException 404 ''User not found'' []), db')
           | (True, db') \<Rightarrow> (Inr (), db')))"

definition read_barbers :: "externals \<Rightarrow> db \<Rightarrow> int \<Rightarrow> int \<Rightarrow> error + UserSchema list" where
  "read_barbers E db skip limit = UserSchema_validate_list E (get_barbers db skip limit)"

section \<open>The constraints of the table\<close>

text \<open>The primary key and the two unique columns of app/models/user.py.\<close>

definition table_constraints :: "db \<Rightarrow> bool" where
  "table_constraints db =
     (distinct (map user_id db) \<and> distinct (map email db) \<and> distinct (map username db))"

section \<open>Rows that agree outside some columns\<close>

text \<open>\<open>same_outside K u u'\<close>: the rows agree on every column whose name is not in \<open>K\<close>.\<close>

definition same_outside :: "string set \<Rightarrow> user \<Rightarrow> user \<Rightarrow> bool" where
  "same_outside K u u' =
     ((''id'' \<notin> K \<longrightarrow> user_id u' = user_id u)
    \<and> (''email'' \<notin> K \<longrightarrow> email u' = email u)
    \<and> (''username'' \<notin> K \<longrightarrow> username u' = username u)
    \<and> (''first_name'' \<notin> K \<longrightarrow> first_name u' = first_name u)
    \<and> (''last_name'' \<notin> K \<longrightarrow> last_name u' = last_name u)
    \<and> (''phone_number'' \<notin> K \<longrightarrow> phone_number u' = phone_number u)
    \<and> (''hashed_password'' \<notin> K \<longrightarrow> hashed_password u' = hashed_password u)
    \<and> (''is_active'' \<notin> K \<longrightarrow> is_active u' = is_active u)
    \<and> (''is_barber'' \<notin> K \<longrightarrow> is_barber u' = is_barber u)
    \<and> (''created_at'' \<notin> K \<longrightarrow> created_at u' = created_at u)
    \<and> (''updated_at'' \<notin> K \<longrightarrow> updated_at u' = updated_at u))"

section \<open>A concrete instance\<close>

text \<open>
  Small stand-ins for the libraries, and a table of three users, at which the theorems
  below are evaluated: a hasher that keeps the salt in front of the password, a token
  codec that knows four tokens, an address check that asks for an \<open>@\<close>.
\<close>

definition example_hash :: "nat \<Rightarrow> string \<Rightarrow> string" where
  "example_hash salt p = CHR ''$'' # replicate salt CHR ''s'' @ CHR ''$'' # p"

definition example_verify :: "string \<Rightarrow> string \<Rightarrow> error + bool" where
  "example_verify p h =
     (case h of
        [] \<Rightarrow> Inl UnknownHashError
      | c # rest \<Rightarrow> if c = CHR ''$'' then Inr (dropWhile (\<lambda>x. x = CHR ''s'') rest = CHR ''$'' # p)
                   else Inl UnknownHashError)"

definition example_tokens :: "(string \<times> pydict) list" where
  "example_tokens =
     [(''token-1'', [(''exp'', VInt 2800), (''sub'', VStr ''1'')]),
      (''token-2'', [(''exp'', VInt 2800), (''sub'', VStr ''2'')]),
      (''token-3'', [(''exp'', VInt 2800), (''sub'', VStr ''3'')]),
      (''token-9'', [(''exp'', VInt 2800), (''sub'', VStr ''9'')])]"

definition example_decode :: "int \<Rightarrow> string \<Rightarrow> string \<Rightarrow> pydict option" where
  "example_decode now token key =
     (if key \<noteq> ''secret_key_123'' then None
      else case map_of example_tokens token of
             None \<Rightarrow> None
           | Some claims \<Rightarrow> if map_of claims ''exp'' = Some (VInt 2800) \<and> now \<le> 2800
                            then Some claims else None)"

definition example_externals :: externals where
  "example_externals =
     \<lparr> pwd_hash = example_hash,
       pwd_verify = example_verify,
       jwt_encode = (\<lambda>claims key. ''token-'' @ (case map_of claims ''sub'' of Some (VStr s) \<Rightarrow> s | _ \<Rightarrow> [])),
       jwt_decode = example_decode,
       email_validate = (\<lambda>s. if CHR ''@'' \<in> set s then Some s else None),
       environ_SECRET_KEY = None,
       id_eq_text = (\<lambda>i s. str_int i = s) \<rparr>"

definition alice :: user where
  "alice = \<lparr> user_id = 1, email = ''a@x.com'', username = ''a'', first_name = None,
     last_name = None, phone_number = None, hashed_password = example_hash 0 ''secret1'',
     is_active = Some True, is_barber = Some False, created_at = 1000, updated_at = None \<rparr>"

definition bob :: user where
  "bob = \<lparr> user_id = 2, email = ''b@x.com'', username = ''b'', first_name = Some ''Bob'',
     last_name = None, phone_number = None, hashed_password = example_hash 1 ''barber123'',
     is_active = Some True, is_barber = Some True, created_at = 1001, updated_at = None \<rparr>"

definition carol :: user where
  "carol = \<lparr> user_id = 3, email = ''c@x.com'', username = ''c'', first_name = None,
     last_name = None, phone_number = None, hashed_password = example_hash 2 ''carol123'',
     is_active = Some False, is_barber = Some False, created_at = 1002, updated_at = None \<rparr>"

definition example_db :: db where
  "example_db = [alice, bob, carol]"

text \<open>\<^verbatim>\<open>UserUpdate()\<close>: the payload with no field set.\<close>

definition UserUpdate_unset :: UserUpdate where
  "UserUpdate_unset =
     \<lparr> update_email = Unset, update_username = Unset, update_first_name = Unset,
       update_last_name = Unset, update_phone_number = Unset, update_password = Unset,
       update_is_active = Unset, update_is_barber = Unset \<rparr>"


section \<open>Facts about the concrete instance\<close>

lemma example_simps:
  "pwd_verify example_externals = example_verify"
  "pwd_hash example_externals = example_hash"
  "jwt_decode example_externals = example_decode"
  "environ_SECRET_KEY example_externals = None"
  "id_eq_text example_externals = (\<lambda>i s. str_int i = s)"
  "email_validate example_externals = (\<lambda>s. if CHR ''@'' \<in> set s then Some s else None)"
  by (simp_all add: example_externals_def)

lemma get_alice_by_email: "get_user_by_email example_db ''a@x.com'' = Some alice"
  by (simp add: get_user_by_email_def example_db_def alice_def)


lemma verify_alice:
  "verify_password example_externals ''secret1'' (hashed_password alice) = Inr True"
  by (simp add: verify_password_def example_simps example_verify_def alice_def example_hash_def)



lemma example_users_distinct:
  "alice \<noteq> bob" "alice \<noteq> carol" "bob \<noteq> carol"
  by (simp_all add: alice_def bob_def carol_def)



lemma example_db_ids:
  "get_user example_db 1 = Some alice" "get_user example_db 2 = Some bob"
  "get_user example_db 3 = Some carol" "get_user example_db 9 = None"
  by (simp_all add: get_user_def example_db_def alice_def bob_def carol_def)



lemma example_decode_tokens:
  "jwt_decode example_externals 2000 ''token-3'' (SECRET_KEY example_externals) =
     Some [(''exp'', VInt 2800), (''sub'', VStr ''3'')]"
  "jwt_decode example_externals 2000 ''token-9'' (SECRET_KEY example_externals) =
     Some [(''exp'', VInt 2800), (''sub'', VStr ''9'')]"
  "jwt_decode example_externals 2000 ''token-8'' (SECRET_KEY example_externals) = None"
  "jwt_decode example_externals 3000 ''token-1'' (SECRET_KEY example_externals) = None"
  by (simp_all add: example_simps SECRET_KEY_def example_decode_def example_tokens_def)

lemma example_find_sub:
  "find (\<lambda>u. id_eq_text example_externals (user_id u) ''3'') example_db = Some carol"
  "find (\<lambda>u. id_eq_text example_externals (user_id u) ''9'') example_db = None"
  by (simp_all add: example_simps example_db_def alice_def bob_def carol_def str_int_def
      digits.simps digit_def)

lemmas example_update_defs =
  crud_update_user_def UserUpdate_dict_def UserUpdate_unset_def hash_password_entry_def
  dict_pop_def dict_set_def hasattr_user_def user_columns_def setattr_user_def
  commit_update_def get_password_hash_def example_simps Let_def

lemma example_update_names:
  "crud_update_user example_externals 0 2000 example_db 1
     (UserUpdate_unset\<lparr>update_first_name := Val ''Al'', update_last_name := Val ''Ice''\<rparr>) =
   (Inr (Some (alice\<lparr>first_name := Some ''Al'', last_name := Some ''Ice'',
                      updated_at := Some 2000\<rparr>)),
    [alice\<lparr>first_name := Some ''Al'', last_name := Some ''Ice'', updated_at := Some 2000\<rparr>,
     bob, carol])"
  by (simp add: example_update_defs example_db_ids)
     (simp add: example_db_def alice_def bob_def carol_def)





section \<open>Lists and lookups\<close>



lemma find_Some_list_ex: "find P xs = Some x \<Longrightarrow> list_ex P xs"
  by (auto simp: find_Some_iff list_ex_iff)


lemma user_id_less_next_rowid: "u \<in> set db \<Longrightarrow> user_id u < next_rowid db"
  unfolding next_rowid_def by (induction db) auto


lemma get_user_Some_id: "get_user db uid = Some u \<Longrightarrow> user_id u = uid \<and> u \<in> set db"
  by (auto simp: get_user_def find_Some_iff)


lemma not_truthy_pybool: "(\<not> truthy (pybool b)) = (b \<noteq> Some True)"
  by (cases b) (auto simp: pybool_def)

section \<open>Login\<close>

lemma call_create_access_token_is_barber:
  "call_create_access_token E now
     [(''subject'', a), (''is_barber'', b), (''expires_delta'', c)] =
   Inl (TypeError ''got an unexpected keyword argument is_barber'')"
  by (simp add: call_create_access_token_def bind_kwargs_def create_access_token_params_def)

text \<open>
  Called with the parameters it has, \<^verbatim>\<open>create_access_token\<close> encodes the subject as a
  string and an expiry 30 minutes after the time of issue.
\<close>

lemma create_access_token_claims:
  "create_access_token E now (VInt i) (timedelta_minutes ACCESS_TOKEN_EXPIRE_MINUTES) =
     Inr (jwt_encode E [(''exp'', VInt (now + 30 * 60)), (''sub'', VStr (str_int i))]
            (SECRET_KEY E))"
  by (simp add: create_access_token_def timedelta_minutes_def ACCESS_TOKEN_EXPIRE_MINUTES_def)

text \<open>
  C1. The claim: a login (form or email JSON) with a stored user's email and the right
  password succeeds with a bearer token. The code does not: both handlers call
  \<^verbatim>\<open>create_access_token\<close> with the keyword \<^verbatim>\<open>is_barber\<close>, which the function of
  app/utils/auth.py does not take, so for every stored user and every password that
  verifies the call raises \<^verbatim>\<open>TypeError\<close> and no token is issued.
\<close>

theorem login_correct_password_raises:
  assumes "get_user_by_email db e = Some u"
    and "verify_password E p (hashed_password u) = Inr True"
  shows "login_for_access_token E now db \<lparr>form_username = e, form_password = p\<rparr> =
           Inl (TypeError ''got an unexpected keyword argument is_barber'')
       \<and> login_with_email E now db \<lparr>login_email = e, login_password = p\<rparr> =
           Inl (TypeError ''got an unexpected keyword argument is_barber'')"
  using assms
  by (simp add: login_for_access_token_def login_with_email_def
      call_create_access_token_is_barber)

theorem login_correct_password_raises_witness:
  "get_user_by_email example_db ''a@x.com'' = Some alice
   \<and> verify_password example_externals ''secret1'' (hashed_password alice) = Inr True
   \<and> login_for_access_token example_externals 2000 example_db
        \<lparr>form_username = ''a@x.com'', form_password = ''secret1''\<rparr> =
      Inl (TypeError ''got an unexpected keyword argument is_barber'')
   \<and> login_with_email example_externals 2000 example_db
        \<lparr>login_email = ''a@x.com'', login_password = ''secret1''\<rparr> =
      Inl (TypeError ''got an unexpected keyword argument is_barber'')
   \<and> status_code (TypeError ''got an unexpected keyword argument is_barber'') = 500"
  using login_correct_password_raises [OF get_alice_by_email verify_alice, of 2000]
    get_alice_by_email verify_alice
  by simp



section \<open>Registration\<close>



section \<open>Update and delete: who may\<close>





section \<open>Authentication of a request\<close>

lemma protected_reject:
  assumes "get_current_user E now db a = Inl e"
  shows "read_users E now db a skip limit = Inl e"
    and "read_users_me E now db a = Inl e"
    and "read_user E now db a uid = Inl e"
    and "update_user E salt now db a uid payload = (Inl e, db)"
    and "delete_user E now db a uid = (Inl e, db)"
  using assms
  by (simp_all add: read_users_def read_users_me_def read_user_def update_user_def
      delete_user_def get_barber_user_def)

text \<open>
  C9. For every protected operation (list, get self, get by id, update, delete): a token
  that decodes and whose subject is the id of a user that is not active is answered with
  the exception \<^verbatim>\<open>Inactive user\<close>, status 400, not 401; a token that does not decode, or
  whose subject is the id of no user, is answered with status 401.
\<close>

theorem inactive_400_unauthenticated_401:
  "(jwt_decode E now token (SECRET_KEY E) = Some payload
      \<and> map_of payload ''sub'' = Some (VStr s)
      \<and> find (\<lambda>u. id_eq_text E (user_id u) s) db = Some u
      \<and> is_active u \<noteq> Some True \<longrightarrow>
        get_current_user E now db (Some token) = Inl (HTTPException 400 ''Inactive user'' [])
      \<and> read_users E now db (Some token) skip limit = Inl (HTTPException 400 ''Inactive user'' [])
      \<and> read_users_me E now db (Some token) = Inl (HTTPException 400 ''Inactive user'' [])
      \<and> read_user E now db (Some token) uid = Inl (HTTPException 400 ''Inactive user'' [])
      \<and> update_user E salt now db (Some token) uid upd =
          (Inl (HTTPException 400 ''Inactive user'' []), db)
      \<and> delete_user E now db (Some token) uid =
          (Inl (HTTPException 400 ''Inactive user'' []), db))
   \<and> (jwt_decode E now token (SECRET_KEY E) = None
        \<or> jwt_decode E now token (SECRET_KEY E) = Some payload
          \<and> map_of payload ''sub'' = Some (VStr s)
          \<and> find (\<lambda>u. id_eq_text E (user_id u) s) db = None \<longrightarrow>
        status_code credentials_exception = 401
      \<and> get_current_user E now db (Some token) = Inl credentials_exception
      \<and> read_users E now db (Some token) skip limit = Inl credentials_exception
      \<and> read_users_me E now db (Some token) = Inl credentials_exception
      \<and> read_user E now db (Some token) uid = Inl credentials_exception
      \<and> update_user E salt now db (Some token) uid upd = (Inl credentials_exception, db)
      \<and> delete_user E now db (Some token) uid = (Inl credentials_exception, db))"
proof (intro conjI impI)
  assume a: "jwt_decode E now token (SECRET_KEY E) = Some payload
      \<and> map_of payload ''sub'' = Some (VStr s)
      \<and> find (\<lambda>u. id_eq_text E (user_id u) s) db = Some u
      \<and> is_active u \<noteq> Some True"
  then have g: "get_current_user E now db (Some token) = Inl (HTTPException 400 ''Inactive user'' [])"
    by (simp add: get_current_user_def oauth2_scheme_def not_truthy_pybool)
  show "get_current_user E now db (Some token) = Inl (HTTPException 400 ''Inactive user'' [])"
    by (rule g)
  show "read_users E now db (Some token) skip limit = Inl (HTTPException 400 ''Inactive user'' [])"
    by (rule protected_reject(1) [OF g])
  show "read_users_me E now db (Some token) = Inl (HTTPException 400 ''Inactive user'' [])"
    by (rule protected_reject(2) [OF g])
  show "read_user E now db (Some token) uid = Inl (HTTPException 400 ''Inactive user'' [])"
    by (rule protected_reject(3) [OF g])
  show "update_user E salt now db (Some token) uid upd =
          (Inl (HTTPException 400 ''Inactive user'' []), db)"
    by (rule protected_reject(4) [OF g])
  show "delete_user E now db (Some token) uid =
          (Inl (HTTPException 400 ''Inactive user'' []), db)"
    by (rule protected_reject(5) [OF g])
next
  assume a: "jwt_decode E now token (SECRET_KEY E) = None
        \<or> jwt_decode E now token (SECRET_KEY E) = Some payload
          \<and> map_of payload ''sub'' = Some (VStr s)
          \<and> find (\<lambda>u. id_eq_text E (user_id u) s) db = None"
  then have g: "get_current_user E now db (Some token) = Inl credentials_exception"
    by (auto simp: get_current_user_def oauth2_scheme_def)
  show "status_code credentials_exception = 401"
    by (simp add: credentials_exception_def)
  show "get_current_user E now db (Some token) = Inl credentials_exception"
    by (rule g)
  show "read_users E now db (Some token) skip limit = Inl credentials_exception"
    by (rule protected_reject(1) [OF g])
  show "read_users_me E now db (Some token) = Inl credentials_exception"
    by (rule protected_reject(2) [OF g])
  show "read_user E now db (Some token) uid = Inl credentials_exception"
    by (rule protected_reject(3) [OF g])
  show "update_user E salt now db (Some token) uid upd = (Inl credentials_exception, db)"
    by (rule protected_reject(4) [OF g])
  show "delete_user E now db (Some token) uid = (Inl credentials_exception, db)"
    by (rule protected_reject(5) [OF g])
qed

theorem inactive_400_unauthenticated_401_witness:
  "is_active carol \<noteq> Some True
   \<and> read_users_me example_externals 2000 example_db (Some ''token-3'') =
       Inl (HTTPException 400 ''Inactive user'' [])
   \<and> delete_user example_externals 2000 example_db (Some ''token-3'') 1 =
       (Inl (HTTPException 400 ''Inactive user'' []), example_db)
   \<and> read_users_me example_externals 2000 example_db (Some ''token-9'') =
       Inl (HTTPException 401 ''Could not validate credentials''
              [(''WWW-Authenticate'', ''Bearer'')])
   \<and> read_users_me example_externals 2000 example_db (Some ''token-8'') =
       Inl (HTTPException 401 ''Could not validate credentials''
              [(''WWW-Authenticate'', ''Bearer'')])
   \<and> read_users_me example_externals 3000 example_db (Some ''token-1'') =
       Inl (HTTPException 401 ''Could not validate credentials''
              [(''WWW-Authenticate'', ''Bearer'')])"
proof -
  have c: "is_active carol \<noteq> Some True"
    by (simp add: carol_def)
  show ?thesis
    using inactive_400_unauthenticated_401 [of example_externals 2000 "''token-3''"
        "[(''exp'', VInt 2800), (''sub'', VStr ''3'')]" "''3''" example_db carol 0 100 1 0
        UserUpdate_unset]
      inactive_400_unauthenticated_401 [of example_externals 2000 "''token-9''"
        "[(''exp'', VInt 2800), (''sub'', VStr ''9'')]" "''9''" example_db carol 0 100 1 0
        UserUpdate_unset]
      inactive_400_unauthenticated_401 [of example_externals 2000 "''token-8''"
        "[]" "''9''" example_db carol 0 100 1 0 UserUpdate_unset]
      inactive_400_unauthenticated_401 [of example_externals 3000 "''token-1''"
        "[]" "''9''" example_db carol 0 100 1 0 UserUpdate_unset]
      c example_decode_tokens example_find_sub
    by (simp add: credentials_exception_def)
qed

section \<open>The merge of a partial update\<close>

lemma map_sum_id_Inr: "(map_sum id f x = Inr y) = (\<exists>z. x = Inr z \<and> y = f z)"
  by (cases x) auto

lemma setattr_user_frame:
  assumes "setattr_user u k v = Inr u'"
  shows "(k \<noteq> ''id'' \<longrightarrow> user_id u' = user_id u)
       \<and> (k \<noteq> ''email'' \<longrightarrow> email u' = email u)
       \<and> (k \<noteq> ''username'' \<longrightarrow> username u' = username u)
       \<and> (k \<noteq> ''first_name'' \<longrightarrow> first_name u' = first_name u)
       \<and> (k \<noteq> ''last_name'' \<longrightarrow> last_name u' = last_name u)
       \<and> (k \<noteq> ''phone_number'' \<longrightarrow> phone_number u' = phone_number u)
       \<and> (k \<noteq> ''hashed_password'' \<longrightarrow> hashed_password u' = hashed_password u)
       \<and> (k \<noteq> ''is_active'' \<longrightarrow> is_active u' = is_active u)
       \<and> (k \<noteq> ''is_barber'' \<longrightarrow> is_barber u' = is_barber u)
       \<and> (k \<noteq> ''created_at'' \<longrightarrow> created_at u' = created_at u)
       \<and> (k \<noteq> ''updated_at'' \<longrightarrow> updated_at u' = updated_at u)"
  using assms unfolding setattr_user_def
  by (auto simp: map_sum_id_Inr split: if_splits)

lemma same_outside_refl: "same_outside K u u"
  by (simp add: same_outside_def)

lemma same_outside_trans:
  "same_outside K u u' \<Longrightarrow> same_outside K' u' u'' \<Longrightarrow> same_outside (K \<union> K') u u''"
  by (simp add: same_outside_def)

lemma same_outside_mono: "same_outside K u u' \<Longrightarrow> K \<subseteq> K' \<Longrightarrow> same_outside K' u u'"
  unfolding same_outside_def by blast

lemma setattr_user_same_outside: "setattr_user u k v = Inr u' \<Longrightarrow> same_outside {k} u u'"
  using setattr_user_frame [of u k v u'] by (simp add: same_outside_def)

lemma setattrs_same_outside: "setattrs u d = Inr u' \<Longrightarrow> same_outside (fst ` set d) u u'"
proof (induction d arbitrary: u)
  case Nil
  then show ?case by (simp add: same_outside_refl)
next
  case (Cons fv rest)
  show ?case
  proof (cases "hasattr_user (fst fv)")
    case False
    with Cons.prems have "setattrs u rest = Inr u'" by simp
    then have "same_outside (fst ` set rest) u u'" by (rule Cons.IH)
    then show ?thesis by (rule same_outside_mono) auto
  next
    case True
    with Cons.prems obtain u1 where s: "setattr_user u (fst fv) (snd fv) = Inr u1"
      and r: "setattrs u1 rest = Inr u'"
      by (auto split: sum.splits)
    have "same_outside ({fst fv} \<union> fst ` set rest) u u'"
      using setattr_user_same_outside [OF s] Cons.IH [OF r] by (rule same_outside_trans)
    then show ?thesis by simp
  qed
qed

lemma setattrs_append:
  "setattrs u (d1 @ d2) = (case setattrs u d1 of Inl e \<Rightarrow> Inl e | Inr u1 \<Rightarrow> setattrs u1 d2)"
  by (induction d1 arbitrary: u) (auto split: sum.splits)

lemma entry_keys: "fst ` set (entry k f x) = (if x = Unset then {} else {k})"
  by (cases x) auto

lemma map_of_entry:
  "map_of (entry k f x) k' =
     (if k' = k then (case x of Unset \<Rightarrow> None | Null \<Rightarrow> Some VNone | Val v \<Rightarrow> Some (f v))
      else None)"
  by (cases x) auto

lemma filter_entry:
  "filter (\<lambda>kv. fst kv \<noteq> k') (entry k f x) = (if k = k' then [] else entry k f x)"
  by (cases x) auto

lemma list_ex_entry: "list_ex (\<lambda>kv. fst kv = k') (entry k f x) = (k = k' \<and> x \<noteq> Unset)"
  by (cases x) auto

lemma UserUpdate_dict_keys:
  "fst ` set (UserUpdate_dict p) =
     (if update_email p = Unset then {} else {''email''})
   \<union> (if update_username p = Unset then {} else {''username''})
   \<union> (if update_first_name p = Unset then {} else {''first_name''})
   \<union> (if update_last_name p = Unset then {} else {''last_name''})
   \<union> (if update_phone_number p = Unset then {} else {''phone_number''})
   \<union> (if update_password p = Unset then {} else {''password''})
   \<union> (if update_is_active p = Unset then {} else {''is_active''})
   \<union> (if update_is_barber p = Unset then {} else {''is_barber''})"
  unfolding UserUpdate_dict_def set_append image_Un entry_keys by (simp only: Un_assoc)

lemma map_of_password:
  "map_of (UserUpdate_dict p) ''password'' =
     (case update_password p of Unset \<Rightarrow> None | Null \<Rightarrow> Some VNone | Val v \<Rightarrow> Some (VStr v))"
  by (simp add: UserUpdate_dict_def map_of_entry map_add_def split: field.splits)

lemma dict_pop_password:
  "dict_pop (UserUpdate_dict p) ''password'' = UserUpdate_dict (p\<lparr>update_password := Unset\<rparr>)"
  by (simp add: dict_pop_def UserUpdate_dict_def filter_entry)

lemma no_hashed_password_key:
  "\<not> list_ex (\<lambda>kv. fst kv = ''hashed_password'') (UserUpdate_dict p)"
  by (simp add: UserUpdate_dict_def list_ex_entry list_ex_append)

lemma setattrs_skip_password:
  "setattrs u (UserUpdate_dict p) = setattrs u (UserUpdate_dict (p\<lparr>update_password := Unset\<rparr>))"
proof -
  have "setattrs v (entry ''password'' VStr x) = Inr v" for v x
    by (cases x) (simp_all add: hasattr_user_def user_columns_def)
  then show ?thesis
    by (simp add: UserUpdate_dict_def setattrs_append split: sum.splits)
qed

lemma hash_password_entry_dict:
  "hash_password_entry E salt (UserUpdate_dict p) =
     (case update_password p of
        Val pw \<Rightarrow>
          if pw \<noteq> []
          then UserUpdate_dict (p\<lparr>update_password := Unset\<rparr>)
                 @ [(''hashed_password'', VStr (get_password_hash E salt pw))]
          else UserUpdate_dict p
      | _ \<Rightarrow> UserUpdate_dict p)"
  using no_hashed_password_key [of "p\<lparr>update_password := Unset\<rparr>"]
  by (simp add: hash_password_entry_def map_of_password dict_pop_password dict_set_def
      split: field.splits)

lemma setattr_hashed_password:
  "setattrs u [(''hashed_password'', VStr h)] = Inr (u\<lparr>hashed_password := h\<rparr>)"
  by (simp add: hasattr_user_def user_columns_def setattr_user_def)

lemma crud_update_user_password:
  "crud_update_user E salt now db uid p =
     (case get_user db uid of
        None \<Rightarrow> (Inr None, db)
      | Some u \<Rightarrow>
          (case setattrs u (UserUpdate_dict (p\<lparr>update_password := Unset\<rparr>)) of
             Inl e \<Rightarrow> (Inl e, db)
           | Inr obj \<Rightarrow>
               commit_update now db u
                 (case update_password p of
                    Val pw \<Rightarrow>
                      if pw \<noteq> [] then obj\<lparr>hashed_password := get_password_hash E salt pw\<rparr>
                      else obj
                  | _ \<Rightarrow> obj)))"
proof (cases "get_user db uid")
  case None
  then show ?thesis by (simp add: crud_update_user_def)
next
  case (Some u)
  show ?thesis
  proof (cases "\<exists>pw. update_password p = Val pw \<and> pw \<noteq> []")
    case True
    then obtain pw where pw: "update_password p = Val pw" "pw \<noteq> []" by blast
    then show ?thesis
      using Some
      by (simp add: crud_update_user_def hash_password_entry_dict setattrs_append
          setattr_hashed_password del: setattrs.simps split: sum.splits)
  next
    case False
    then have h: "hash_password_entry E salt (UserUpdate_dict p) = UserUpdate_dict p"
      by (auto simp: hash_password_entry_dict split: field.splits)
    from False have c: "(case update_password p of
                    Val pw \<Rightarrow>
                      if pw \<noteq> [] then obj\<lparr>hashed_password := get_password_hash E salt pw\<rparr>
                      else obj
                  | _ \<Rightarrow> obj) = obj" for obj
      by (auto split: field.splits)
    show ?thesis
      using Some setattrs_skip_password [of u p]
      by (simp add: crud_update_user_def h c split: sum.splits)
  qed
qed

lemma commit_update_cases:
  "commit_update now db old obj = (r, db') \<Longrightarrow>
     (r = Inl IntegrityError \<and> db' = db)
   \<or> (\<exists>row. r = Inr (Some row) \<and> (row = obj \<and> obj = old \<or> obj \<noteq> old \<and> row = obj\<lparr>updated_at := Some now\<rparr>)
         \<and> db' = map (\<lambda>x. if user_id x = user_id old then row else x) db)"
  by (auto simp: commit_update_def Let_def split: if_splits)


lemma mem_if_single: "(k \<in> (if b then {} else {k'})) = (\<not> b \<and> k = k')"
  by simp

lemma setattrs_dict_frame:
  assumes "setattrs u (UserUpdate_dict (p\<lparr>update_password := Unset\<rparr>)) = Inr obj"
  shows "user_id obj = user_id u" and "created_at obj = created_at u"
    and "updated_at obj = updated_at u" and "hashed_password obj = hashed_password u"
    and "update_email p = Unset \<Longrightarrow> email obj = email u"
    and "update_username p = Unset \<Longrightarrow> username obj = username u"
    and "update_first_name p = Unset \<Longrightarrow> first_name obj = first_name u"
    and "update_last_name p = Unset \<Longrightarrow> last_name obj = last_name u"
    and "update_phone_number p = Unset \<Longrightarrow> phone_number obj = phone_number u"
    and "update_is_active p = Unset \<Longrightarrow> is_active obj = is_active u"
    and "update_is_barber p = Unset \<Longrightarrow> is_barber obj = is_barber u"
  using setattrs_same_outside [OF assms]
  unfolding same_outside_def UserUpdate_dict_keys
  by (simp_all add: mem_if_single)

lemma crud_update_user_result:
  assumes g: "get_user db uid = Some u"
  shows "(\<exists>e. crud_update_user E salt now db uid p = (Inl e, db))
       \<or> (\<exists>obj0 obj u'.
             setattrs u (UserUpdate_dict (p\<lparr>update_password := Unset\<rparr>)) = Inr obj0
           \<and> obj = (case update_password p of
                      Val pw \<Rightarrow>
                        if pw \<noteq> [] then obj0\<lparr>hashed_password := get_password_hash E salt pw\<rparr>
                        else obj0
                    | _ \<Rightarrow> obj0)
           \<and> (u' = obj \<and> obj = u \<or> obj \<noteq> u \<and> u' = obj\<lparr>updated_at := Some now\<rparr>)
           \<and> crud_update_user E salt now db uid p =
               (Inr (Some u'), map (\<lambda>x. if user_id x = uid then u' else x) db))"
proof (cases "setattrs u (UserUpdate_dict (p\<lparr>update_password := Unset\<rparr>))")
  case (Inl e)
  with g show ?thesis by (simp add: crud_update_user_password)
next
  case (Inr obj0)
  define obj where "obj = (case update_password p of
                      Val pw \<Rightarrow>
                        if pw \<noteq> [] then obj0\<lparr>hashed_password := get_password_hash E salt pw\<rparr>
                        else obj0
                    | _ \<Rightarrow> obj0)"
  have c: "crud_update_user E salt now db uid p = commit_update now db u obj"
    using g Inr by (simp add: crud_update_user_password obj_def)
  have i: "user_id u = uid"
    using g by (simp add: get_user_Some_id)
  obtain r db' where r: "commit_update now db u obj = (r, db')"
    by (cases "commit_update now db u obj")
  from commit_update_cases [OF r] show ?thesis
    using c r Inr obj_def i by auto
qed

text \<open>
  C7, as amended. For an existing user and any partial payload, an update that succeeds
  leaves the id, the creation time and every attribute whose field is unset in the
  payload as they were (an unset \<open>password\<close> leaves the stored hash), and every other
  row of the table untouched; the row is either unchanged or carries the time of the
  update in \<open>updated_at\<close>. An update that fails changes nothing. So an update of the first
  and last name alone leaves the email and every other attribute but \<open>updated_at\<close>.
\<close>

theorem update_frame:
  assumes "get_user db uid = Some u"
  shows "case crud_update_user E salt now db uid p of
           (Inl e, db') \<Rightarrow> db' = db
         | (Inr None, db') \<Rightarrow> False
         | (Inr (Some u'), db') \<Rightarrow>
             user_id u' = user_id u \<and> created_at u' = created_at u
           \<and> (update_email p = Unset \<longrightarrow> email u' = email u)
           \<and> (update_username p = Unset \<longrightarrow> username u' = username u)
           \<and> (update_first_name p = Unset \<longrightarrow> first_name u' = first_name u)
           \<and> (update_last_name p = Unset \<longrightarrow> last_name u' = last_name u)
           \<and> (update_phone_number p = Unset \<longrightarrow> phone_number u' = phone_number u)
           \<and> (update_password p = Unset \<longrightarrow> hashed_password u' = hashed_password u)
           \<and> (update_is_active p = Unset \<longrightarrow> is_active u' = is_active u)
           \<and> (update_is_barber p = Unset \<longrightarrow> is_barber u' = is_barber u)
           \<and> (u' = u \<or> updated_at u' = Some now)
           \<and> db' = map (\<lambda>r. if user_id r = uid then u' else r) db"
proof -
  consider (err) e where "crud_update_user E salt now db uid p = (Inl e, db)"
    | (ok) obj0 obj u' where
      "setattrs u (UserUpdate_dict (p\<lparr>update_password := Unset\<rparr>)) = Inr obj0"
      "obj = (case update_password p of
                Val pw \<Rightarrow>
                  if pw \<noteq> [] then obj0\<lparr>hashed_password := get_password_hash E salt pw\<rparr>
                  else obj0
              | _ \<Rightarrow> obj0)"
      "u' = obj \<and> obj = u \<or> obj \<noteq> u \<and> u' = obj\<lparr>updated_at := Some now\<rparr>"
      "crud_update_user E salt now db uid p =
         (Inr (Some u'), map (\<lambda>x. if user_id x = uid then u' else x) db)"
    using crud_update_user_result [OF assms, of E salt now p] by blast
  then show ?thesis
  proof cases
    case err
    then show ?thesis by simp
  next
    case ok
    note s = ok(1) and o = ok(2) and u' = ok(3) and c = ok(4)
  note f = setattrs_dict_frame [OF s]
  have 1: "user_id obj = user_id u" "created_at obj = created_at u"
    using f(1,2) o by (auto split: field.splits)
  have 2: "update_password p = Unset \<Longrightarrow> hashed_password obj = hashed_password u"
    using f(4) o by simp
  have 3: "email obj = email obj0" "username obj = username obj0"
    "first_name obj = first_name obj0" "last_name obj = last_name obj0"
    "phone_number obj = phone_number obj0" "is_active obj = is_active obj0"
    "is_barber obj = is_barber obj0"
    using o by (auto split: field.splits)
  have 4: "user_id u' = user_id obj" "created_at u' = created_at obj" "email u' = email obj"
    "username u' = username obj" "first_name u' = first_name obj" "last_name u' = last_name obj"
    "phone_number u' = phone_number obj" "is_active u' = is_active obj"
    "is_barber u' = is_barber obj" "hashed_password u' = hashed_password obj"
    using u' by auto
  have 5: "u' = u \<or> updated_at u' = Some now"
    using u' by auto
  show ?thesis
    using c 1 2 3 4 5 f(5-11) by simp
  qed
qed

theorem update_frame_witness:
  "get_user example_db 1 = Some alice
   \<and> fst (crud_update_user example_externals 0 2000 example_db 1
        (UserUpdate_unset\<lparr>update_first_name := Val ''Al'', update_last_name := Val ''Ice''\<rparr>)) =
      Inr (Some (alice\<lparr>first_name := Some ''Al'', last_name := Some ''Ice'',
                        updated_at := Some 2000\<rparr>))
   \<and> email (alice\<lparr>first_name := Some ''Al'', last_name := Some ''Ice'',
                        updated_at := Some 2000\<rparr>) = email alice
   \<and> hashed_password (alice\<lparr>first_name := Some ''Al'', last_name := Some ''Ice'',
                        updated_at := Some 2000\<rparr>) = hashed_password alice"
  using update_frame [OF example_db_ids(1), where E = example_externals and salt = 0
      and now = 2000
      and p = "UserUpdate_unset\<lparr>update_first_name := Val ''Al'', update_last_name := Val ''Ice''\<rparr>"]
  by (simp add: example_update_names example_db_ids)

text \<open>
  The claim as first stated, that such an update leaves all other attributes as they
  were, fails on \<open>updated_at\<close>: the column is declared \<^verbatim>\<open>onupdate=func.now()\<close>.
\<close>

theorem update_names_bumps_updated_at:
  "get_user example_db 1 = Some alice
   \<and> fst (crud_update_user example_externals 0 2000 example_db 1
        (UserUpdate_unset\<lparr>update_first_name := Val ''Al'', update_last_name := Val ''Ice''\<rparr>)) =
      Inr (Some (alice\<lparr>first_name := Some ''Al'', last_name := Some ''Ice'',
                        updated_at := Some 2000\<rparr>))
   \<and> updated_at (alice\<lparr>first_name := Some ''Al'', last_name := Some ''Ice'',
                        updated_at := Some 2000\<rparr>) \<noteq> updated_at alice"
  by (simp add: example_update_names example_db_ids) (simp add: alice_def)




section \<open>The barber flag and the registration response\<close>














section \<open>The handlers keep the constraints of the table\<close>

text \<open>
  The primary key and the unique columns hold in the empty table and after every
  handler that writes, so they hold in every table the service reaches.
\<close>

lemma table_constraints_empty: "table_constraints []"
  by (simp add: table_constraints_def)

lemma distinct_replace:
  assumes "distinct (map user_id db)" and "distinct (map col db)"
    and "\<not> list_ex (\<lambda>r. user_id r \<noteq> uid \<and> col r = col row) db"
  shows "distinct (map col (map (\<lambda>x. if user_id x = uid then row else x) db))"
  using assms
proof (induction db)
  case Nil
  then show ?case by simp
next
  case (Cons x xs)
  show ?case
  proof (cases "user_id x = uid")
    case True
    from Cons.prems(1) have "user_id x \<notin> user_id ` set xs" by simp
    with True have "\<forall>y\<in>set xs. user_id y \<noteq> uid" by (metis imageI)
    then have m: "map (\<lambda>x. if user_id x = uid then row else x) xs = xs"
      by (simp add: map_idI)
    from Cons.prems(3) \<open>\<forall>y\<in>set xs. user_id y \<noteq> uid\<close> have "col row \<notin> col ` set xs"
      by (auto simp: list_ex_iff)
    with Cons.prems(2) True m show ?thesis by simp
  next
    case False
    have ih: "distinct (map col (map (\<lambda>x. if user_id x = uid then row else x) xs))"
      using Cons.prems by (intro Cons.IH) (auto simp: list_ex_iff)
    have "col x \<noteq> col (if user_id y = uid then row else y)" if "y \<in> set xs" for y
      using that Cons.prems(2,3) False by (auto simp: list_ex_iff)
    then have "col x \<notin> set (map col (map (\<lambda>x. if user_id x = uid then row else x) xs))"
      by auto
    with ih False show ?thesis by simp
  qed
qed

lemma map_user_id_replace:
  "user_id row = uid \<Longrightarrow>
     map user_id (map (\<lambda>x. if user_id x = uid then row else x) db) = map user_id db"
  by (induction db) auto

lemma table_constraints_create:
  assumes "table_constraints db"
  shows "table_constraints (snd (crud_create_user E salt now db user))"
proof -
  have "user_id u \<noteq> next_rowid db" if "u \<in> set db" for u
    using user_id_less_next_rowid [OF that] by simp
  then have "next_rowid db \<notin> user_id ` set db" by force
  with assms show ?thesis
    by (auto simp: crud_create_user_def table_constraints_def Let_def list_ex_iff)
qed

lemma table_constraints_update:
  assumes t: "table_constraints db"
  shows "table_constraints (snd (crud_update_user E salt now db uid p))"
proof (cases "get_user db uid")
  case None
  with t show ?thesis by (simp add: crud_update_user_def)
next
  case (Some u)
  note i = get_user_Some_id [OF Some]
  consider (err) e where "crud_update_user E salt now db uid p = (Inl e, db)"
    | (ok) obj0 obj u' where
      "setattrs u (UserUpdate_dict (p\<lparr>update_password := Unset\<rparr>)) = Inr obj0"
      "obj = (case update_password p of
                Val pw \<Rightarrow>
                  if pw \<noteq> [] then obj0\<lparr>hashed_password := get_password_hash E salt pw\<rparr>
                  else obj0
              | _ \<Rightarrow> obj0)"
      "u' = obj \<and> obj = u \<or> obj \<noteq> u \<and> u' = obj\<lparr>updated_at := Some now\<rparr>"
      "crud_update_user E salt now db uid p =
         (Inr (Some u'), map (\<lambda>x. if user_id x = uid then u' else x) db)"
    using crud_update_user_result [OF Some, of E salt now p] by blast
  then show ?thesis
  proof cases
    case err
    with t show ?thesis by simp
  next
    case ok
    have "crud_update_user E salt now db uid p = commit_update now db u obj"
      using Some ok(1) by (simp add: crud_update_user_password ok(2))
    with ok(4) have c: "commit_update now db u obj =
        (Inr (Some u'), map (\<lambda>x. if user_id x = uid then u' else x) db)"
      by simp
    note a = ok(1)
    have k: "email u' = email obj" "username u' = username obj" "user_id u' = user_id obj0"
      using ok(2,3) by (auto split: field.splits)
    have n: "\<not> list_ex (\<lambda>r. user_id r \<noteq> uid \<and> (email r = email u' \<or> username r = username u')) db"
      using c i k by (auto simp: commit_update_def Let_def split: if_splits)
    have id': "user_id u' = uid"
      using k(3) setattrs_dict_frame(1) [OF a] i by simp
    have 1: "distinct (map user_id (map (\<lambda>x. if user_id x = uid then u' else x) db))"
      using t id' by (simp only: map_user_id_replace table_constraints_def)
    have 2: "distinct (map email (map (\<lambda>x. if user_id x = uid then u' else x) db))"
      using t n by (intro distinct_replace) (auto simp: table_constraints_def list_ex_iff)
    have 3: "distinct (map username (map (\<lambda>x. if user_id x = uid then u' else x) db))"
      using t n by (intro distinct_replace) (auto simp: table_constraints_def list_ex_iff)
    from ok(4) 1 2 3 show ?thesis
      by (simp add: table_constraints_def)
  qed
qed

lemma table_constraints_delete:
  "table_constraints db \<Longrightarrow> table_constraints (snd (crud_delete_user db uid))"
  by (auto simp: crud_delete_user_def table_constraints_def distinct_map_filter
      split: option.splits)

lemma snd_handlers:
  "snd (post_users E salt now db body) = db
     \<or> (\<exists>user. snd (post_users E salt now db body) = snd (crud_create_user E salt now db user))"
  "snd (update_user E salt now db a uid p) = db
     \<or> snd (update_user E salt now db a uid p) = snd (crud_update_user E salt now db uid p)"
  "snd (delete_user E now db a uid) = db
     \<or> snd (delete_user E now db a uid) = snd (crud_delete_user db uid)"
proof -
  show "snd (post_users E salt now db body) = db
     \<or> (\<exists>user. snd (post_users E salt now db body) = snd (crud_create_user E salt now db user))"
  proof (cases "UserCreate_validate E body")
    case (Inl e)
    then show ?thesis by (simp add: post_users_def)
  next
    case (Inr user)
    obtain r db' where c: "crud_create_user E salt now db user = (r, db')"
      by (cases "crud_create_user E salt now db user")
    have h: "snd (create_user E salt now db user) = db \<or> snd (create_user E salt now db user) = db'"
      using c by (cases r) (auto simp: create_user_def split: option.splits)
    have s: "snd (crud_create_user E salt now db user) = db'"
      using c by simp
    have "post_users E salt now db body = create_user E salt now db user"
      using Inr by (simp add: post_users_def)
    with h s show ?thesis by metis
  qed
  show "snd (update_user E salt now db a uid p) = db
     \<or> snd (update_user E salt now db a uid p) = snd (crud_update_user E salt now db uid p)"
  proof -
    obtain r db' where c: "crud_update_user E salt now db uid p = (r, db')"
      by (cases "crud_update_user E salt now db uid p")
    show ?thesis
      using c by (cases r) (auto simp: update_user_def split: option.splits sum.splits)
  qed
  show "snd (delete_user E now db a uid) = db
     \<or> snd (delete_user E now db a uid) = snd (crud_delete_user db uid)"
  proof -
    obtain r db' where c: "crud_delete_user db uid = (r, db')"
      by (cases "crud_delete_user db uid")
    show ?thesis
      using c by (cases r) (auto simp: delete_user_def split: sum.splits)
  qed
qed

lemma table_constraints_handlers:
  assumes "table_constraints db"
  shows "table_constraints (snd (post_users E salt now db body))"
    and "table_constraints (snd (update_user E salt now db a uid p))"
    and "table_constraints (snd (delete_user E now db a uid))"
proof -
  show "table_constraints (snd (post_users E salt now db body))"
    using assms table_constraints_create [OF assms, of E salt now]
      snd_handlers(1) [of E salt now db body]
    by auto
  show "table_constraints (snd (update_user E salt now db a uid p))"
    using assms table_constraints_update [OF assms, of E salt now uid p]
      snd_handlers(2) [of E salt now db a uid p]
    by auto
  show "table_constraints (snd (delete_user E now db a uid))"
    using assms table_constraints_delete [OF assms, of uid]
      snd_handlers(3) [of E now db a uid]
    by auto
qed

end
